theory Spec2Isabelle
  imports Complex_Main "HOL-Library.AList" "HOL-Library.Multiset" "HOL-Library.Word"
begin

section \<open>Python values of \<^verbatim>\<open>scripts/streamlit_app.py\<close>\<close>

text \<open>
  A Python \<^verbatim>\<open>str\<close> is a sequence of Unicode code points, a \<^verbatim>\<open>bytes\<close> object a
  sequence of octets. String literals of the script are written as Isabelle strings and
  turned into code points by \<open>lit\<close>.
\<close>

type_synonym pystr = "nat list"
type_synonym pybytes = "8 word list"

definition lit :: "string \<Rightarrow> pystr" where
  "lit s = map of_char s"

text \<open>The values an entry of \<^verbatim>\<open>text_list\<close> can be: a string, or something that is not one.\<close>

datatype pyval = PStr pystr | PNone | PBool bool | PInt int | PNaN

text \<open>
  \<^verbatim>\<open>str.isspace\<close> of CPython (\<^verbatim>\<open>_PyUnicode_IsWhitespace\<close>): the code points that
  \<^verbatim>\<open>str.strip()\<close> removes.
\<close>

definition is_space :: "nat \<Rightarrow> bool" where
  "is_space c \<longleftrightarrow>
     (9 \<le> c \<and> c \<le> 13) \<or> (28 \<le> c \<and> c \<le> 32) \<or> c = 133 \<or> c = 160 \<or> c = 5760 \<or>
     (8192 \<le> c \<and> c \<le> 8202) \<or> c = 8232 \<or> c = 8233 \<or> c = 8239 \<or> c = 8287 \<or> c = 12288"

definition py_strip :: "pystr \<Rightarrow> pystr" where
  "py_strip s = rev (dropWhile is_space (rev (dropWhile is_space s)))"

text \<open>\<^verbatim>\<open>str(i)\<close> for a non-negative integer, as the f-string \<^verbatim>\<open>f"L_{i}"\<close> needs it.\<close>

fun str_nat :: "nat \<Rightarrow> pystr" where
  "str_nat n = (if n < 10 then [48 + n] else str_nat (n div 10) @ [48 + n mod 10])"

declare str_nat.simps [simp del]

section \<open>The prediction wrapper\<close>

text \<open>
  Exceptions are values. \<open>ModelError\<close> stands for whatever the tokenizer or the model
  raises; \<open>ArgmaxError\<close> is what \<^verbatim>\<open>torch.argmax\<close> raises on a row with no class.
\<close>

datatype exn = ModelError | ArgmaxError | IndexError | ValueError | KeyError | NameError
  | UnicodeDecodeError | ParserError

text \<open>
  One result record (a Python dict with four keys). \<^verbatim>\<open>raw_probabilities\<close> is a dict;
  it is kept as an association list in insertion order, written with \<open>AList.update\<close>,
  which overwrites the value of a key already present, as a dict does.
\<close>

record prediction =
  text_of :: pyval
  predicted_category :: pystr
  confidence :: real
  raw_probabilities :: "(pystr \<times> real) list"

text \<open>
  The tokenizer, the model and the device are one parameter: \<open>loaded_model t\<close> is the
  row of logits that lines 146--148 compute for the string \<open>t\<close>, or the exception they
  raise. Floating-point numbers are read as the reals they denote.
\<close>

type_synonym model = "pystr \<Rightarrow> exn + real list"
type_synonym label_map = "nat \<rightharpoonup> pystr"

definition softmax :: "real list \<Rightarrow> real list" where
  "softmax logits = map (\<lambda>z. exp z / sum_list (map exp logits)) logits"

text \<open>\<^verbatim>\<open>torch.argmax\<close>: the index of the first maximal value; it raises on an empty row.\<close>

fun first_index :: "real list \<Rightarrow> real \<Rightarrow> nat" where
  "first_index [] m = 0"
| "first_index (p # ps) m = (if p = m then 0 else Suc (first_index ps m))"

definition argmax :: "real list \<Rightarrow> exn + nat" where
  "argmax ps = (if ps = [] then Inl ArgmaxError else Inr (first_index ps (Max (set ps))))"

definition label_or :: "label_map \<Rightarrow> nat \<Rightarrow> pystr \<Rightarrow> pystr" where
  "label_or id_to_label_map i dflt = (case id_to_label_map i of Some l \<Rightarrow> l | None \<Rightarrow> dflt)"

text \<open>The dict comprehension of line 155, one insertion per class index, in order.\<close>

definition raw_probs :: "label_map \<Rightarrow> real list \<Rightarrow> (pystr \<times> real) list" where
  "raw_probs id_to_label_map ps =
     fold (\<lambda>(i, p) d. AList.update (label_or id_to_label_map i (lit ''L_'' @ str_nat i)) p d)
       (enumerate 0 ps) []"

definition sentinel :: "pyval \<Rightarrow> prediction" where
  "sentinel t = \<lparr>text_of = t, predicted_category = lit ''Invalid/Empty'', confidence = 0,
     raw_probabilities = []\<rparr>"

text \<open>The test of line 143: \<^verbatim>\<open>not isinstance(text, str) or not text.strip()\<close>.\<close>

fun invalid_text :: "pyval \<Rightarrow> bool" where
  "invalid_text (PStr s) = (py_strip s = [])"
| "invalid_text _ = True"

text \<open>The body of the loop of \<^verbatim>\<open>predict_category\<close> for one entry (lines 143--156).\<close>

fun predict_entry :: "model \<Rightarrow> label_map \<Rightarrow> pyval \<Rightarrow> exn + prediction" where
  "predict_entry loaded_model id_to_label_map (PStr s) =
     (if py_strip s = [] then Inr (sentinel (PStr s))
      else case loaded_model s of
        Inl e \<Rightarrow> Inl e
      | Inr logits \<Rightarrow>
          let probabilities = softmax logits in
          case argmax probabilities of
            Inl e \<Rightarrow> Inl e
          | Inr predicted_label_idx \<Rightarrow>
              Inr \<lparr>text_of = PStr s,
                   predicted_category = label_or id_to_label_map predicted_label_idx (lit ''Unknown''),
                   confidence = probabilities ! predicted_label_idx,
                   raw_probabilities = raw_probs id_to_label_map probabilities\<rparr>)"
| "predict_entry loaded_model id_to_label_map t = Inr (sentinel t)"

text \<open>The loop: \<open>results\<close> is the list built so far; an exception leaves the loop.\<close>

fun predict_loop :: "model \<Rightarrow> label_map \<Rightarrow> pyval list \<Rightarrow> prediction list \<Rightarrow> exn + prediction list" where
  "predict_loop loaded_model id_to_label_map [] results = Inr results"
| "predict_loop loaded_model id_to_label_map (t # ts) results =
     (case predict_entry loaded_model id_to_label_map t of
        Inl e \<Rightarrow> Inl e
      | Inr r \<Rightarrow> predict_loop loaded_model id_to_label_map ts (results @ [r]))"

definition predict_category :: "pyval list \<Rightarrow> model \<Rightarrow> label_map \<Rightarrow> exn + prediction list" where
  "predict_category text_list loaded_model id_to_label_map =
     (if text_list = [] then Inr [] else predict_loop loaded_model id_to_label_map text_list [])"

section \<open>Batch analysis: chunking\<close>

text \<open>
  \<^verbatim>\<open>np.array_split(texts, num_chunks)\<close> turns the list into an array and cuts it at
  the cumulated section sizes: \<open>l mod n\<close> sections of \<open>l div n + 1\<close> items, then the
  rest of \<open>l div n\<close> items; it raises for \<open>n = 0\<close>. An array of strings has a
  fixed-width, NUL-padded element type, so reading an element back
  (\<^verbatim>\<open>text_chunk.tolist()\<close>) yields the string without its trailing NUL characters.
\<close>

fun cumsum :: "nat \<Rightarrow> nat list \<Rightarrow> nat list" where
  "cumsum s [] = []"
| "cumsum s (k # ks) = (s + k) # cumsum (s + k) ks"

definition slice :: "'a list \<Rightarrow> nat \<Rightarrow> nat \<Rightarrow> 'a list" where
  "slice xs st end = take (end - st) (drop st xs)"

definition array_split :: "pystr list \<Rightarrow> nat \<Rightarrow> exn + pystr list list" where
  "array_split ary Nsections =
     (if Nsections = 0 then Inl ValueError
      else
        let Neach_section = length ary div Nsections;
            extras = length ary mod Nsections;
            section_sizes = [0] @ replicate extras (Neach_section + 1)
                            @ replicate (Nsections - extras) Neach_section;
            div_points = cumsum 0 section_sizes
        in Inr (map (\<lambda>i. slice ary (div_points ! i) (div_points ! (i + 1))) [0..<Nsections]))"

definition np_item :: "pystr \<Rightarrow> pystr" where
  "np_item s = rev (dropWhile (\<lambda>c. c = 0) (rev s))"

definition tolist :: "pystr list \<Rightarrow> pyval list" where
  "tolist text_chunk = map (\<lambda>s. PStr (np_item s)) text_chunk"

text \<open>The loop of lines 275--277 over the chunks; \<open>results\<close> is extended chunk by chunk.\<close>

fun chunk_loop :: "model \<Rightarrow> label_map \<Rightarrow> pystr list list \<Rightarrow> prediction list \<Rightarrow> exn + prediction list" where
  "chunk_loop loaded_model id_to_label [] results = Inr results"
| "chunk_loop loaded_model id_to_label (text_chunk # chunks) results =
     (case predict_category (tolist text_chunk) loaded_model id_to_label of
        Inl e \<Rightarrow> Inl e
      | Inr rs \<Rightarrow> chunk_loop loaded_model id_to_label chunks (results @ rs))"

definition run_analysis :: "pystr list \<Rightarrow> model \<Rightarrow> label_map \<Rightarrow> exn + prediction list" where
  "run_analysis texts loaded_model id_to_label =
     (let num_chunks = max 1 (length texts div 10) in
      case array_split texts num_chunks of
        Inl e \<Rightarrow> Inl e
      | Inr chunks \<Rightarrow> chunk_loop loaded_model id_to_label chunks [])"

section \<open>The results collection\<close>

text \<open>
  \<^verbatim>\<open>pd.DataFrame(results)\<close> of a list of dicts: the columns are the keys of the dicts,
  so the frame of an empty list has no column at all. Selecting a column that is not
  there raises \<^verbatim>\<open>KeyError\<close>.
\<close>

record dataframe =
  columns :: "pystr list"
  rows :: "prediction list"

definition DataFrame :: "prediction list \<Rightarrow> dataframe" where
  "DataFrame results =
     (if results = [] then \<lparr>columns = [], rows = []\<rparr>
      else \<lparr>columns = [lit ''text'', lit ''predicted_category'', lit ''confidence'',
                         lit ''raw_probabilities''],
            rows = results\<rparr>)"

text \<open>Line 287: \<^verbatim>\<open>results_df[results_df['confidence'] >= confidence_threshold]\<close>.\<close>

definition filter_confidence :: "dataframe \<Rightarrow> real \<Rightarrow> exn + dataframe" where
  "filter_confidence results_df confidence_threshold =
     (if lit ''confidence'' \<in> set (columns results_df)
      then Inr (results_df\<lparr>rows := filter (\<lambda>r. confidence r \<ge> confidence_threshold) (rows results_df)\<rparr>)
      else Inl KeyError)"

text \<open>
  Line 288: \<^verbatim>\<open>filtered_df['predicted_category'].value_counts()\<close>, the number of rows of
  each category, kept as a multiset of categories (the order of the bars is not kept).
\<close>

definition value_counts :: "dataframe \<Rightarrow> exn + pystr multiset" where
  "value_counts df =
     (if lit ''predicted_category'' \<in> set (columns df)
      then Inr (mset (map predicted_category (rows df)))
      else Inl KeyError)"

section \<open>What the script shows and keeps\<close>

datatype ui_event =
    St_error pystr
  | St_error_exn exn
  | St_warning pystr
  | St_info_found nat
  | St_warning_first nat nat
  | St_success pystr
  | St_subheader pystr
  | St_category pystr bool
  | St_metric real
  | St_chart_probabilities "(pystr \<times> real) list"
  | St_chart_counts "pystr multiset" real
  | St_table_counts "pystr multiset"
  | St_download_button pybytes

record session_state =
  text_input_single :: pystr
  uploader_key_counter :: nat
  results_df :: "dataframe option"

text \<open>
  \<^verbatim>\<open>st.stop()\<close> ends the run of the script; it raises an exception that is not an
  \<^verbatim>\<open>Exception\<close>, so the \<^verbatim>\<open>except Exception\<close> of line 281 does not catch it.
\<close>

datatype control = Continue | StopScript

section \<open>Tab 1: a single article\<close>

text \<open>
  Lines 216--244. The button is disabled for an empty input, so a click is only seen
  for a non-empty one. An exception is not caught here.
\<close>

definition classify_article :: "bool \<Rightarrow> pystr \<Rightarrow> model \<Rightarrow> label_map \<Rightarrow> real \<Rightarrow> exn + ui_event list" where
  "classify_article clicked user_input_single loaded_model id_to_label confidence_threshold =
     (if clicked \<and> user_input_single \<noteq> [] then
        if length (py_strip user_input_single) < 10
        then Inr [St_warning (lit ''Input is too short. Please provide more text.'')]
        else
          case predict_category [PStr user_input_single] loaded_model id_to_label of
            Inl e \<Rightarrow> Inl e
          | Inr [] \<Rightarrow> Inl IndexError
          | Inr (result # _) \<Rightarrow>
              Inr [St_subheader (lit ''Classification Result''),
                   St_category (predicted_category result) (confidence result \<ge> confidence_threshold),
                   St_metric (confidence result),
                   St_chart_probabilities (raw_probabilities result)]
      else Inr [])"

section \<open>Tab 2: reading the uploaded file\<close>

record uploaded_file =
  name :: pystr
  content :: pybytes

definition endswith :: "pystr \<Rightarrow> pystr \<Rightarrow> bool" where
  "endswith s suffix \<longleftrightarrow>
     length suffix \<le> length s \<and> drop (length s - length suffix) s = suffix"

text \<open>Iterating over the file yields its lines, each with its terminating newline.\<close>

fun iter_lines :: "pybytes \<Rightarrow> pybytes \<Rightarrow> pybytes list" where
  "iter_lines [] line = (if line = [] then [] else [line])"
| "iter_lines (b # bs) line =
     (if b = 0x0A then (line @ [b]) # iter_lines bs [] else iter_lines bs (line @ [b]))"

text \<open>\<^verbatim>\<open>bytes.strip()\<close> removes ASCII whitespace only.\<close>

definition is_space_byte :: "8 word \<Rightarrow> bool" where
  "is_space_byte b \<longleftrightarrow> b = 0x20 \<or> (0x09 \<le> b \<and> b \<le> 0x0D)"

definition bytes_strip :: "pybytes \<Rightarrow> pybytes" where
  "bytes_strip s = rev (dropWhile is_space_byte (rev (dropWhile is_space_byte s)))"

text \<open>
  \<^verbatim>\<open>bytes.decode("utf-8")\<close>, strict: shortest forms only, no surrogates, nothing
  above U+10FFFF.
\<close>

definition is_cont :: "8 word \<Rightarrow> bool" where
  "is_cont b \<longleftrightarrow> 0x80 \<le> b \<and> b \<le> 0xBF"

definition cons_ok :: "nat \<Rightarrow> exn + pystr \<Rightarrow> exn + pystr" where
  "cons_ok c r = (case r of Inl e \<Rightarrow> Inl e | Inr s \<Rightarrow> Inr (c # s))"

fun utf8_decode :: "pybytes \<Rightarrow> exn + pystr" where
  "utf8_decode [] = Inr []"
| "utf8_decode (b # bs) =
     (if b < 0x80 then cons_ok (unat b) (utf8_decode bs)
      else if 0xC2 \<le> b \<and> b \<le> 0xDF then
        (case bs of
           c1 # r \<Rightarrow>
             if is_cont c1
             then cons_ok ((unat b - 0xC0) * 64 + (unat c1 - 0x80)) (utf8_decode r)
             else Inl UnicodeDecodeError
         | _ \<Rightarrow> Inl UnicodeDecodeError)
      else if 0xE0 \<le> b \<and> b \<le> 0xEF then
        (case bs of
           c1 # c2 # r \<Rightarrow>
             if is_cont c1 \<and> is_cont c2
                \<and> (if b = 0xE0 then 0xA0 \<le> c1 else True)
                \<and> (if b = 0xED then c1 \<le> 0x9F else True)
             then cons_ok ((unat b - 0xE0) * 4096 + (unat c1 - 0x80) * 64 + (unat c2 - 0x80))
                    (utf8_decode r)
             else Inl UnicodeDecodeError
         | _ \<Rightarrow> Inl UnicodeDecodeError)
      else if 0xF0 \<le> b \<and> b \<le> 0xF4 then
        (case bs of
           c1 # c2 # c3 # r \<Rightarrow>
             if is_cont c1 \<and> is_cont c2 \<and> is_cont c3
                \<and> (if b = 0xF0 then 0x90 \<le> c1 else True)
                \<and> (if b = 0xF4 then c1 \<le> 0x8F else True)
             then cons_ok ((unat b - 0xF0) * 262144 + (unat c1 - 0x80) * 4096
                           + (unat c2 - 0x80) * 64 + (unat c3 - 0x80))
                    (utf8_decode r)
             else Inl UnicodeDecodeError
         | _ \<Rightarrow> Inl UnicodeDecodeError)
      else Inl UnicodeDecodeError)"

text \<open>
  Line 260, the comprehension over the lines of a \<^verbatim>\<open>.txt\<close> file: a line is kept when
  \<^verbatim>\<open>line.strip()\<close> (on bytes) is not empty, and is then decoded and stripped (as a
  string).
\<close>

fun txt_texts :: "pybytes list \<Rightarrow> exn + pystr list" where
  "txt_texts [] = Inr []"
| "txt_texts (line # lines) =
     (if bytes_strip line \<noteq> [] then
        case utf8_decode line of
          Inl e \<Rightarrow> Inl e
        | Inr s \<Rightarrow> (case txt_texts lines of Inl e \<Rightarrow> Inl e | Inr ts \<Rightarrow> Inr (py_strip s # ts))
      else txt_texts lines)"

text \<open>
  A parsed CSV file: its columns in order, each with its cells. \<^verbatim>\<open>pd.read_csv\<close>
  itself is a parameter of the model. \<^verbatim>\<open>dropna()\<close> removes the missing cells and
  \<^verbatim>\<open>astype(str)\<close> applies \<^verbatim>\<open>str\<close> to the others.
\<close>

datatype cell = CStr pystr | CNaN | CInt int | CBool bool

type_synonym csv_frame = "(pystr \<times> cell list) list"
type_synonym csv_reader = "pybytes \<Rightarrow> exn + csv_frame"

fun astype_str :: "cell \<Rightarrow> pystr" where
  "astype_str (CStr s) = s"
| "astype_str (CInt i) = (if i < 0 then 45 # str_nat (nat (- i)) else str_nat (nat i))"
| "astype_str (CBool b) = (if b then lit ''True'' else lit ''False'')"
| "astype_str CNaN = lit ''nan''"

definition csv_texts :: "cell list \<Rightarrow> pystr list" where
  "csv_texts column = map astype_str (filter (\<lambda>c. c \<noteq> CNaN) column)"

text \<open>
  Lines 259--266. The outcome is the list \<open>texts\<close>, an exception, or the stop of
  line 265. A file name with neither suffix leaves \<open>texts\<close> unbound, and line 267
  raises \<^verbatim>\<open>NameError\<close>.
\<close>

datatype parsed = Texts "pystr list" | Raised exn | Stopped

definition read_texts :: "csv_reader \<Rightarrow> uploaded_file \<Rightarrow> parsed" where
  "read_texts read_csv uploaded =
     (if endswith (name uploaded) (lit ''.txt'') then
        (case txt_texts (iter_lines (content uploaded) []) of
           Inl e \<Rightarrow> Raised e
         | Inr texts \<Rightarrow> Texts texts)
      else if endswith (name uploaded) (lit ''.csv'') then
        (case read_csv (content uploaded) of
           Inl e \<Rightarrow> Raised e
         | Inr df \<Rightarrow>
             (case map_of df (lit ''text'') of
                None \<Rightarrow> Stopped
              | Some column \<Rightarrow> Texts (csv_texts column)))
      else Raised NameError)"

section \<open>Tab 2: the batch action and the display of the results\<close>

text \<open>
  Lines 256--282. The result is what is shown, the session state afterwards, and
  whether the script goes on.
\<close>

definition tab2_upload ::
  "csv_reader \<Rightarrow> model \<Rightarrow> label_map \<Rightarrow> nat \<Rightarrow> bool \<Rightarrow> uploaded_file option \<Rightarrow> session_state
     \<Rightarrow> ui_event list \<times> session_state \<times> control" where
  "tab2_upload read_csv loaded_model id_to_label max_batch_size clicked uploaded st =
     (case uploaded of
        None \<Rightarrow> ([], st, Continue)
      | Some f \<Rightarrow>
          (case read_texts read_csv f of
             Stopped \<Rightarrow>
               ([St_error (lit ''CSV file must contain a 'text' column.'')], st, StopScript)
           | Raised e \<Rightarrow> ([St_error_exn e], st, Continue)
           | Texts found \<Rightarrow>
               let info = [St_info_found (length found)];
                   warn = (if length found > max_batch_size
                           then [St_warning_first (length found) max_batch_size] else []);
                   texts = (if length found > max_batch_size
                            then take max_batch_size found else found)
               in if clicked then
                    (case run_analysis texts loaded_model id_to_label of
                       Inl e \<Rightarrow> (info @ warn @ [St_error_exn e], st, Continue)
                     | Inr results \<Rightarrow>
                         (info @ warn @ [St_success (lit ''Batch analysis complete!'')],
                          st\<lparr>results_df := Some (DataFrame results)\<rparr>, Continue))
                  else (info @ warn, st, Continue)))"

text \<open>
  Lines 284--308: the display of the stored results. The export \<^verbatim>\<open>to_csv\<close> is a
  parameter. An exception here is not caught.
\<close>

definition tab2_results :: "(dataframe \<Rightarrow> pybytes) \<Rightarrow> real \<Rightarrow> session_state \<Rightarrow> exn + ui_event list" where
  "tab2_results to_csv confidence_threshold st =
     (case results_df st of
        None \<Rightarrow> Inr []
      | Some df \<Rightarrow>
          (case filter_confidence df confidence_threshold of
             Inl e \<Rightarrow> Inl e
           | Inr filtered_df \<Rightarrow>
               (case value_counts filtered_df of
                  Inl e \<Rightarrow> Inl e
                | Inr category_counts \<Rightarrow>
                    if category_counts \<noteq> {#} then
                      Inr [St_subheader (lit ''Analysis Results''),
                           St_chart_counts category_counts confidence_threshold,
                           St_table_counts category_counts,
                           St_download_button (to_csv df)]
                    else
                      Inr [St_subheader (lit ''Analysis Results''),
                           St_warning (lit ''No articles met the confidence threshold. Try lowering it in the sidebar settings.'')])))"

text \<open>One run of tab 2: the upload block, then, unless the script was stopped, the display.\<close>

definition tab2 ::
  "csv_reader \<Rightarrow> (dataframe \<Rightarrow> pybytes) \<Rightarrow> model \<Rightarrow> label_map \<Rightarrow> real \<Rightarrow> nat \<Rightarrow> bool
     \<Rightarrow> uploaded_file option \<Rightarrow> session_state
     \<Rightarrow> exn + ui_event list \<times> session_state \<times> control" where
  "tab2 read_csv to_csv loaded_model id_to_label confidence_threshold max_batch_size clicked uploaded st =
     (case tab2_upload read_csv loaded_model id_to_label max_batch_size clicked uploaded st of
        (shown, st', StopScript) \<Rightarrow> Inr (shown, st', StopScript)
      | (shown, st', Continue) \<Rightarrow>
          (case tab2_results to_csv confidence_threshold st' of
             Inl e \<Rightarrow> Inl e
           | Inr display \<Rightarrow> Inr (shown @ display, st', Continue)))"

section \<open>Properties of the prediction wrapper\<close>

lemma predict_loop_Inr:
  "predict_loop m lm ts acc = Inr rs \<Longrightarrow>
     \<exists>rs'. rs = acc @ rs' \<and> length rs' = length ts \<and>
       (\<forall>i<length ts. predict_entry m lm (ts ! i) = Inr (rs' ! i))"
proof (induction ts arbitrary: acc rs)
  case Nil
  then show ?case by simp
next
  case (Cons t ts)
  from Cons.prems obtain r where r: "predict_entry m lm t = Inr r"
    and rest: "predict_loop m lm ts (acc @ [r]) = Inr rs"
    by (auto split: sum.splits)
  from Cons.IH [OF rest] obtain rs' where rs': "rs = (acc @ [r]) @ rs'"
    "length rs' = length ts" "\<forall>i<length ts. predict_entry m lm (ts ! i) = Inr (rs' ! i)"
    by blast
  have "\<forall>i<length (t # ts). predict_entry m lm ((t # ts) ! i) = Inr ((r # rs') ! i)"
    using r rs'(3) by (auto simp: nth_Cons split: nat.splits)
  with rs' show ?case by (intro exI [of _ "r # rs'"]) simp
qed

lemma predict_loop_total:
  "\<forall>t\<in>set ts. \<exists>r. predict_entry m lm t = Inr r \<Longrightarrow> \<exists>rs. predict_loop m lm ts acc = Inr rs"
proof (induction ts arbitrary: acc)
  case Nil
  then show ?case by simp
next
  case (Cons t ts)
  then obtain r where "predict_entry m lm t = Inr r" by auto
  with Cons show ?case by simp
qed

lemma predict_entry_text: "predict_entry m lm t = Inr r \<Longrightarrow> text_of r = t"
  by (cases t) (auto simp: sentinel_def Let_def split: if_splits sum.splits)

lemma predict_entry_invalid:
  "invalid_text t \<Longrightarrow> predict_entry m lm t = Inr (sentinel t)"
  by (cases t) simp_all

lemma predict_entry_valid_total:
  "m s = Inr logits \<Longrightarrow> logits \<noteq> [] \<Longrightarrow> \<exists>r. predict_entry m lm (PStr s) = Inr r"
  by (simp add: argmax_def softmax_def Let_def)

lemma predict_category_Inr:
  assumes "predict_category ts m lm = Inr rs"
  shows "length rs = length ts \<and> (\<forall>i<length ts. predict_entry m lm (ts ! i) = Inr (rs ! i))"
proof (cases "ts = []")
  case True
  with assms show ?thesis by (simp add: predict_category_def)
next
  case False
  with assms have "predict_loop m lm ts [] = Inr rs" by (simp add: predict_category_def)
  from predict_loop_Inr [OF this] show ?thesis by auto
qed

lemma predict_category_total:
  assumes "\<forall>t\<in>set ts. \<exists>r. predict_entry m lm t = Inr r"
  shows "\<exists>rs. predict_category ts m lm = Inr rs"
  using predict_loop_total [OF assms, of "[]"] by (simp add: predict_category_def)

text \<open>
  C1. \<^verbatim>\<open>predict_category\<close> returns one record per entry of the input list, in the
  order of the input: the result has the length of the input and the record at position
  \<open>i\<close> is the one computed for the entry at position \<open>i\<close>, whose text it carries. The
  function has no exception handling of its own, so it returns whenever the model
  answers each valid text with a row of logits for at least one class.
\<close>

theorem predict_category_length_order:
  assumes "\<forall>s. PStr s \<in> set text_list \<and> py_strip s \<noteq> []
             \<longrightarrow> (\<exists>logits. loaded_model s = Inr logits \<and> logits \<noteq> [])"
  shows "\<exists>results. predict_category text_list loaded_model id_to_label_map = Inr results \<and>
           length results = length text_list \<and>
           (\<forall>i<length text_list.
              predict_entry loaded_model id_to_label_map (text_list ! i) = Inr (results ! i) \<and>
              text_of (results ! i) = text_list ! i)"
proof -
  have "\<exists>r. predict_entry loaded_model id_to_label_map t = Inr r" if "t \<in> set text_list" for t
  proof (cases "invalid_text t")
    case True
    then show ?thesis by (simp add: predict_entry_invalid)
  next
    case False
    then obtain s where s: "t = PStr s" "py_strip s \<noteq> []" by (cases t) auto
    with that assms obtain logits where "loaded_model s = Inr logits" "logits \<noteq> []" by blast
    with s(1) show ?thesis using predict_entry_valid_total by blast
  qed
  then obtain results where r: "predict_category text_list loaded_model id_to_label_map = Inr results"
    using predict_category_total by blast
  from predict_category_Inr [OF r] predict_entry_text r show ?thesis by blast
qed

theorem predict_category_length_order_witness:
  "\<exists>results. predict_category [PStr [97, 98], PNone, PStr [32]] (\<lambda>s. Inr [0, 0]) Map.empty = Inr results \<and>
     length results = 3 \<and> text_of (results ! 0) = PStr [97, 98] \<and> text_of (results ! 1) = PNone"
  using predict_category_length_order [of "[PStr [97, 98], PNone, PStr [32]]" "\<lambda>s. Inr [0, 0]" Map.empty]
  by auto

text \<open>
  C2. An entry that is not a string, or whose stripped form is empty, gets the sentinel
  record: category \<^verbatim>\<open>Invalid/Empty\<close>, confidence 0, no probabilities. The model is not
  asked for such an entry, so nothing is raised for it, whatever the model does.
\<close>

theorem invalid_entry_sentinel:
  assumes "i < length text_list" and "invalid_text (text_list ! i)"
  shows "predict_entry loaded_model id_to_label_map (text_list ! i) =
           Inr \<lparr>text_of = text_list ! i, predicted_category = lit ''Invalid/Empty'',
                confidence = 0, raw_probabilities = []\<rparr> \<and>
         (\<forall>results. predict_category text_list loaded_model id_to_label_map = Inr results \<longrightarrow>
            results ! i = \<lparr>text_of = text_list ! i, predicted_category = lit ''Invalid/Empty'',
                           confidence = 0, raw_probabilities = []\<rparr>)"
proof -
  have e: "predict_entry loaded_model id_to_label_map (text_list ! i) = Inr (sentinel (text_list ! i))"
    using assms(2) by (rule predict_entry_invalid)
  have "results ! i = sentinel (text_list ! i)"
    if "predict_category text_list loaded_model id_to_label_map = Inr results" for results
    using predict_category_Inr [OF that] assms(1) e by auto
  with e show ?thesis by (simp add: sentinel_def)
qed

theorem invalid_entry_sentinel_witness:
  "predict_category [PStr [32, 9], PInt 5] (\<lambda>s. Inl ModelError) Map.empty =
     Inr [\<lparr>text_of = PStr [32, 9], predicted_category = lit ''Invalid/Empty'',
             confidence = 0, raw_probabilities = []\<rparr>,
          \<lparr>text_of = PInt 5, predicted_category = lit ''Invalid/Empty'',
             confidence = 0, raw_probabilities = []\<rparr>] \<and>
   predict_entry (\<lambda>s. Inl ModelError) Map.empty ([PStr [32, 9], PInt 5] ! 0) =
     Inr \<lparr>text_of = [PStr [32, 9], PInt 5] ! 0, predicted_category = lit ''Invalid/Empty'',
          confidence = 0, raw_probabilities = []\<rparr>"
  using invalid_entry_sentinel [of 0 "[PStr [32, 9], PInt 5]" "\<lambda>s. Inl ModelError" Map.empty]
  by (simp add: predict_category_def sentinel_def py_strip_def is_space_def)

section \<open>Properties of the chunked batch run\<close>





lemma cumsum_nth_shift: "(s # cumsum s (k # ks)) ! Suc i = ((s + k) # cumsum (s + k) ks) ! i"
  by simp







text \<open>
  C3. The chunked run is meant to give exactly what one call of \<^verbatim>\<open>predict_category\<close>
  on the whole list gives, and the single-article path does hand its text over
  unchanged. The batch path does not: a text that ends with a NUL character comes back
  from the array without it. The upload line \<^verbatim>\<open>"a\x00"\<close> is classified and recorded as
  \<^verbatim>\<open>"a"\<close>, and the line \<^verbatim>\<open>"\x00"\<close> becomes the empty string and gets the sentinel
  although one call on the list asks the model.
\<close>

theorem chunked_run_strips_trailing_nul:
  "run_analysis [[97, 0]] (\<lambda>s. Inr [0]) Map.empty =
     Inr [\<lparr>text_of = PStr [97], predicted_category = lit ''Unknown'', confidence = 1,
            raw_probabilities = [(lit ''L_0'', 1)]\<rparr>] \<and>
   predict_category [PStr [97, 0]] (\<lambda>s. Inr [0]) Map.empty =
     Inr [\<lparr>text_of = PStr [97, 0], predicted_category = lit ''Unknown'', confidence = 1,
            raw_probabilities = [(lit ''L_0'', 1)]\<rparr>] \<and>
   run_analysis [[0]] (\<lambda>s. Inr [0]) Map.empty =
     Inr [\<lparr>text_of = PStr [], predicted_category = lit ''Invalid/Empty'', confidence = 0,
            raw_probabilities = []\<rparr>] \<and>
   predict_category [PStr [0]] (\<lambda>s. Inr [0]) Map.empty =
     Inr [\<lparr>text_of = PStr [0], predicted_category = lit ''Unknown'', confidence = 1,
            raw_probabilities = [(lit ''L_0'', 1)]\<rparr>]"
  by (simp add: run_analysis_def array_split_def slice_def tolist_def np_item_def
      predict_category_def py_strip_def is_space_def softmax_def argmax_def Let_def
      raw_probs_def label_or_def lit_def sentinel_def str_nat.simps)

section \<open>Confidence and the stored probabilities\<close>

lemma first_index_nth:
  "m \<in> set ps \<Longrightarrow> first_index ps m < length ps \<and> ps ! first_index ps m = m"
  by (induction ps) auto

lemma update_absent: "k \<notin> fst ` set al \<Longrightarrow> AList.update k v al = al @ [(k, v)]"
  by (induction al) auto

lemma fold_update_distinct:
  "distinct (map key [k..<k + length ps]) \<Longrightarrow>
   \<forall>i\<in>{k..<k + length ps}. key i \<notin> fst ` set acc \<Longrightarrow>
   fold (\<lambda>(i, p) d. AList.update (key i) p d) (enumerate k ps) acc =
     acc @ map (\<lambda>(i, p). (key i, p)) (enumerate k ps)"
proof (induction ps arbitrary: k acc)
  case Nil
  then show ?case by simp
next
  case (Cons p ps)
  have range: "[k..<k + length (p # ps)] = k # [Suc k..<Suc k + length ps]"
    by (subst upt_rec) simp
  from Cons.prems(2) have absent: "key k \<notin> fst ` set acc" by simp
  have d: "distinct (map key [Suc k..<Suc k + length ps])"
    using Cons.prems(1) unfolding range by simp
  have fresh: "\<forall>i\<in>{Suc k..<Suc k + length ps}. key i \<notin> fst ` set (acc @ [(key k, p)])"
  proof
    fix i assume i: "i \<in> {Suc k..<Suc k + length ps}"
    with Cons.prems(2) have "key i \<notin> fst ` set acc" by simp
    moreover have "key k \<notin> key ` set [Suc k..<Suc k + length ps]"
      using Cons.prems(1) unfolding range by simp
    then have "key i \<noteq> key k"
      using i by (metis atLeastLessThan_upt image_eqI)
    ultimately show "key i \<notin> fst ` set (acc @ [(key k, p)])" by auto
  qed
  show ?case
    using Cons.IH [OF d fresh] absent by (simp add: update_absent)
qed

lemma raw_probs_distinct:
  assumes "distinct (map (\<lambda>i. label_or lm i (lit ''L_'' @ str_nat i)) [0..<length ps])"
  shows "map snd (raw_probs lm ps) = ps"
proof -
  have "raw_probs lm ps =
        map (\<lambda>(i, p). (label_or lm i (lit ''L_'' @ str_nat i), p)) (enumerate 0 ps)"
    unfolding raw_probs_def
    using fold_update_distinct [of "\<lambda>i. label_or lm i (lit ''L_'' @ str_nat i)" 0 ps "[]"] assms
    by simp
  then have "map snd (raw_probs lm ps) = map snd (enumerate 0 ps)"
    by (simp add: case_prod_unfold comp_def)
  then show ?thesis by simp
qed

lemma softmax_length [simp]: "length (softmax logits) = length logits"
  by (simp add: softmax_def)

lemma labels_distinct:
  assumes "\<forall>i<n. i \<in> dom lm" and "inj_on lm {..<n}"
  shows "distinct (map (\<lambda>i. label_or lm i (dflt i)) [0..<n])"
proof -
  have "inj_on (\<lambda>i. label_or lm i (dflt i)) (set [0..<n])"
  proof (rule inj_onI)
    fix i j
    assume i: "i \<in> set [0..<n]" and j: "j \<in> set [0..<n]"
      and eq: "label_or lm i (dflt i) = label_or lm j (dflt j)"
    from i j assms(1) obtain a b where ab: "lm i = Some a" "lm j = Some b" by fastforce
    with eq have "lm i = lm j" by (simp add: label_or_def)
    with assms(2) i j show "i = j" by (auto dest: inj_onD)
  qed
  then show ?thesis by (simp add: distinct_map)
qed

text \<open>
  C4. The confidence of a record computed for a valid string is the probability at the
  index that \<^verbatim>\<open>torch.argmax\<close> returns, which is the greatest of the class
  probabilities. For a label map that names every class index, each with its own name
  (the bijection of the data model), the dict \<^verbatim>\<open>raw_probabilities\<close> holds exactly the
  class probabilities, in class order, so the confidence is the greatest stored value.
\<close>

theorem confidence_is_max_probability:
  assumes "predict_entry loaded_model id_to_label_map (PStr s) = Inr r"
    and "py_strip s \<noteq> []"
    and "loaded_model s = Inr logits"
  shows "(\<exists>k. argmax (softmax logits) = Inr k \<and> confidence r = softmax logits ! k) \<and>
         confidence r = Max (set (softmax logits)) \<and>
         ((\<forall>i<length logits. i \<in> dom id_to_label_map) \<and> inj_on id_to_label_map {..<length logits}
            \<longrightarrow> map snd (raw_probabilities r) = softmax logits \<and>
                confidence r = Max (snd ` set (raw_probabilities r)))"
proof -
  let ?ps = "softmax logits"
  from assms have ne: "?ps \<noteq> []"
    by (auto simp: Let_def argmax_def split: if_splits)
  then have am: "argmax ?ps = Inr (first_index ?ps (Max (set ?ps)))"
    by (simp add: argmax_def)
  with assms have r: "r = \<lparr>text_of = PStr s,
      predicted_category = label_or id_to_label_map (first_index ?ps (Max (set ?ps))) (lit ''Unknown''),
      confidence = ?ps ! first_index ?ps (Max (set ?ps)),
      raw_probabilities = raw_probs id_to_label_map ?ps\<rparr>"
    by (auto simp: Let_def)
  have "Max (set ?ps) \<in> set ?ps" using ne by (intro Max_in) simp_all
  then have c: "confidence r = Max (set ?ps)" using first_index_nth r by simp
  have idx: "\<exists>k. argmax ?ps = Inr k \<and> confidence r = ?ps ! k"
    using am r by simp
  have stored: "map snd (raw_probabilities r) = ?ps \<and>
                confidence r = Max (snd ` set (raw_probabilities r))"
    if "\<forall>i<length logits. i \<in> dom id_to_label_map" and "inj_on id_to_label_map {..<length logits}"
  proof -
    have "distinct (map (\<lambda>i. label_or id_to_label_map i (lit ''L_'' @ str_nat i)) [0..<length ?ps])"
      using labels_distinct [OF that] by simp
    then have m: "map snd (raw_probs id_to_label_map ?ps) = ?ps"
      by (rule raw_probs_distinct)
    then have "snd ` set (raw_probs id_to_label_map ?ps) = set ?ps"
      by (metis image_set)
    with m c r show ?thesis by simp
  qed
  from idx c stored show ?thesis by blast
qed

theorem confidence_is_max_probability_witness:
  "predict_entry (\<lambda>s. Inr [ln 3, 0]) [0 \<mapsto> lit ''Sports'', 1 \<mapsto> lit ''World''] (PStr [97]) =
     Inr \<lparr>text_of = PStr [97], predicted_category = lit ''Sports'', confidence = 3/4,
          raw_probabilities = [(lit ''Sports'', 3/4), (lit ''World'', 1/4)]\<rparr> \<and>
   confidence \<lparr>text_of = PStr [97], predicted_category = lit ''Sports'', confidence = 3/4,
       raw_probabilities = [(lit ''Sports'', 3/4), (lit ''World'', 1/4)]\<rparr> = Max (set (softmax [ln 3, 0])) \<and>
   confidence \<lparr>text_of = PStr [97], predicted_category = lit ''Sports'', confidence = 3/4,
       raw_probabilities = [(lit ''Sports'', 3/4), (lit ''World'', 1/4)]\<rparr> =
   Max (snd ` set (raw_probabilities \<lparr>text_of = PStr [97], predicted_category = lit ''Sports'',
       confidence = 3/4, raw_probabilities = [(lit ''Sports'', 3/4), (lit ''World'', 1/4)]\<rparr>))"
proof -
  have e: "predict_entry (\<lambda>s. Inr [ln 3, 0]) [0 \<mapsto> lit ''Sports'', 1 \<mapsto> lit ''World''] (PStr [97]) =
     Inr \<lparr>text_of = PStr [97], predicted_category = lit ''Sports'', confidence = 3/4,
          raw_probabilities = [(lit ''Sports'', 3/4), (lit ''World'', 1/4)]\<rparr>"
    by (simp add: py_strip_def is_space_def softmax_def argmax_def raw_probs_def label_or_def
        lit_def Let_def)
  have v: "py_strip [97] \<noteq> []" by (simp add: py_strip_def is_space_def)
  have total: "\<forall>i<length [ln 3, 0::real]. i \<in> dom [0 \<mapsto> lit ''Sports'', 1 \<mapsto> lit ''World'']"
    by (auto simp: less_Suc_eq)
  have inj: "inj_on [0 \<mapsto> lit ''Sports'', 1 \<mapsto> lit ''World''] {..<length [ln 3, 0::real]}"
    by (auto simp: inj_on_def less_Suc_eq lit_def)
  from confidence_is_max_probability [OF e v refl] total inj e show ?thesis by blast
qed

section \<open>Properties of tab 1\<close>

text \<open>
  C8. When the stripped input has fewer than 10 characters, the Classify Article action
  only shows the warning "Input is too short": the outcome does not depend on the model,
  so \<^verbatim>\<open>predict_category\<close> is not called and no result is shown. (For an empty input
  the button is disabled and nothing at all happens.)
\<close>

theorem short_input_only_warns:
  assumes "length (py_strip user_input_single) < 10"
  shows "classify_article clicked user_input_single loaded_model id_to_label confidence_threshold =
           (if clicked \<and> user_input_single \<noteq> []
            then Inr [St_warning (lit ''Input is too short. Please provide more text.'')]
            else Inr [])"
  using assms by (simp add: classify_article_def)

theorem short_input_only_warns_witness:
  "classify_article True (lit '' too short '') (\<lambda>s. Inl ModelError) Map.empty (3/4) =
     Inr [St_warning (lit ''Input is too short. Please provide more text.'')]"
  using short_input_only_warns [of "lit '' too short ''" True "\<lambda>s. Inl ModelError" Map.empty "3/4"]
  by (simp add: lit_def py_strip_def is_space_def)

section \<open>Properties of tab 2\<close>

lemma csv_name_not_txt: "endswith s (lit ''.csv'') \<Longrightarrow> \<not> endswith s (lit ''.txt'')"
  by (auto simp: endswith_def lit_def)

text \<open>
  C7. A CSV upload without a \<^verbatim>\<open>text\<close> column: the error message is shown and the
  script stops there. Nothing else is shown, the model is not asked (the outcome does not
  depend on it, nor on whether the button was clicked), and the session state, with any
  results collection stored before, is as it was.
\<close>

theorem csv_without_text_column_stops:
  assumes "endswith (name f) (lit ''.csv'')"
    and "read_csv (content f) = Inr df"
    and "lit ''text'' \<notin> fst ` set df"
  shows "tab2 read_csv to_csv loaded_model id_to_label confidence_threshold max_batch_size clicked (Some f) st =
           Inr ([St_error (lit ''CSV file must contain a 'text' column.'')], st, StopScript)"
proof -
  from assms(3) have "map_of df (lit ''text'') = None" by (simp add: map_of_eq_None_iff)
  with assms(1,2) csv_name_not_txt [OF assms(1)]
  have "read_texts read_csv f = Stopped" by (simp add: read_texts_def)
  then show ?thesis by (simp add: tab2_def tab2_upload_def)
qed

theorem csv_without_text_column_stops_witness:
  "tab2 (\<lambda>b. Inr [(lit ''title'', [CStr [97]])]) (\<lambda>d. []) (\<lambda>s. Inr [0, 0]) Map.empty (3/4) 100 True
     (Some \<lparr>name = lit ''news.csv'', content = []\<rparr>)
     \<lparr>text_input_single = [], uploader_key_counter = 0, results_df = Some (DataFrame [sentinel PNone])\<rparr> =
   Inr ([St_error (lit ''CSV file must contain a 'text' column.'')],
        \<lparr>text_input_single = [], uploader_key_counter = 0, results_df = Some (DataFrame [sentinel PNone])\<rparr>,
        StopScript)"
  using csv_without_text_column_stops [of "\<lparr>name = lit ''news.csv'', content = []\<rparr>"
      "\<lambda>b. Inr [(lit ''title'', [CStr [97]])]" "[(lit ''title'', [CStr [97]])]"
      "\<lambda>d. []" "\<lambda>s. Inr [0, 0]" Map.empty "3/4" 100 True
      "\<lparr>text_input_single = [], uploader_key_counter = 0, results_df = Some (DataFrame [sentinel PNone])\<rparr>"]
  by (simp add: endswith_def lit_def)

lemma filter_confidence_DataFrame:
  "results \<noteq> [] \<Longrightarrow>
   filter_confidence (DataFrame results) thr =
     Inr ((DataFrame results)\<lparr>rows := filter (\<lambda>r. confidence r \<ge> thr) results\<rparr>)"
  by (simp add: filter_confidence_def DataFrame_def)

lemma value_counts_filtered:
  "results \<noteq> [] \<Longrightarrow>
   value_counts ((DataFrame results)\<lparr>rows := rs\<rparr>) = Inr (mset (map predicted_category rs))"
  by (simp add: value_counts_def DataFrame_def)

text \<open>
  C5. The filter of line 287 keeps the rows whose confidence is at least the threshold
  (lemma \<open>filter_confidence_DataFrame\<close>), but only for a collection that has rows. A run
  of the batch action on a file with no article stores \<^verbatim>\<open>pd.DataFrame([])\<close>, which has
  no \<^verbatim>\<open>confidence\<close> column; the display then raises \<^verbatim>\<open>KeyError\<close> instead of
  showing no row, for every threshold.
\<close>

theorem empty_batch_display_raises:
  "tab2 read_csv to_csv loaded_model id_to_label confidence_threshold max_batch_size True
     (Some \<lparr>name = lit ''articles.txt'', content = []\<rparr>) st = Inl KeyError"
  by (simp add: tab2_def tab2_upload_def read_texts_def endswith_def lit_def run_analysis_def
      array_split_def slice_def chunk_loop.simps tolist_def predict_category_def DataFrame_def
      tab2_results_def filter_confidence_def)

text \<open>
  C10, as the code has it. For a stored collection with at least one row, the download button is
  shown exactly when some row meets the threshold, and what it offers is then the export
  of the whole collection, whatever the threshold; the chart and the table are those of
  the rows that meet the threshold. When no row meets it, the warning is shown and there
  is no download.
\<close>

theorem download_is_full_results:
  assumes "results_df st = Some (DataFrame results)" and "results \<noteq> []"
  shows "tab2_results to_csv confidence_threshold st =
           (if \<exists>r\<in>set results. confidence r \<ge> confidence_threshold
            then Inr [St_subheader (lit ''Analysis Results''),
                      St_chart_counts (mset (map predicted_category
                         (filter (\<lambda>r. confidence r \<ge> confidence_threshold) results))) confidence_threshold,
                      St_table_counts (mset (map predicted_category
                         (filter (\<lambda>r. confidence r \<ge> confidence_threshold) results))),
                      St_download_button (to_csv (DataFrame results))]
            else Inr [St_subheader (lit ''Analysis Results''),
                      St_warning (lit ''No articles met the confidence threshold. Try lowering it in the sidebar settings.'')])"
proof -
  let ?kept = "filter (\<lambda>r. confidence r \<ge> confidence_threshold) results"
  have shown: "tab2_results to_csv confidence_threshold st =
      (if mset (map predicted_category ?kept) \<noteq> {#}
       then Inr [St_subheader (lit ''Analysis Results''),
                 St_chart_counts (mset (map predicted_category ?kept)) confidence_threshold,
                 St_table_counts (mset (map predicted_category ?kept)),
                 St_download_button (to_csv (DataFrame results))]
       else Inr [St_subheader (lit ''Analysis Results''),
                 St_warning (lit ''No articles met the confidence threshold. Try lowering it in the sidebar settings.'')])"
    unfolding tab2_results_def assms(1) option.case
      filter_confidence_DataFrame [OF assms(2)] sum.case value_counts_filtered [OF assms(2)]
    by (rule refl)
  have "mset (map predicted_category ?kept) \<noteq> {#} \<longleftrightarrow>
          (\<exists>r\<in>set results. confidence r \<ge> confidence_threshold)"
    by (auto simp: filter_empty_conv)
  with shown show ?thesis by simp
qed

theorem download_is_full_results_witness:
  "tab2_results (\<lambda>d. map (\<lambda>r. if confidence r \<ge> 3/4 then 0x48 else 0x4C) (rows d)) (3/4)
     \<lparr>text_input_single = [], uploader_key_counter = 0,
      results_df = Some (DataFrame
        [\<lparr>text_of = PStr [97], predicted_category = lit ''World'', confidence = 9/10,
           raw_probabilities = []\<rparr>,
         \<lparr>text_of = PStr [98], predicted_category = lit ''Sports'', confidence = 1/2,
           raw_probabilities = []\<rparr>])\<rparr> =
   Inr [St_subheader (lit ''Analysis Results''),
        St_chart_counts {#lit ''World''#} (3/4),
        St_table_counts {#lit ''World''#},
        St_download_button [0x48, 0x4C]]"
  using download_is_full_results [of
     "\<lparr>text_input_single = [], uploader_key_counter = 0,
      results_df = Some (DataFrame
        [\<lparr>text_of = PStr [97], predicted_category = lit ''World'', confidence = 9/10,
           raw_probabilities = []\<rparr>,
         \<lparr>text_of = PStr [98], predicted_category = lit ''Sports'', confidence = 1/2,
           raw_probabilities = []\<rparr>])\<rparr>"
     "[\<lparr>text_of = PStr [97], predicted_category = lit ''World'', confidence = 9/10,
           raw_probabilities = []\<rparr>,
         \<lparr>text_of = PStr [98], predicted_category = lit ''Sports'', confidence = 1/2,
           raw_probabilities = []\<rparr>]"
     "\<lambda>d. map (\<lambda>r. if confidence r \<ge> 3/4 then 0x48 else 0x4C) (rows d)" "3/4"]
  by (simp add: DataFrame_def)

text \<open>
  C10 as stated fails: the threshold decides whether there is an export at all. With
  rows of confidence 0.9 and 0.5, the threshold 0.75 gives the download button, with
  both rows in the export, and the threshold 0.95 gives the warning only.
\<close>

theorem download_depends_on_threshold:
  "tab2_results (\<lambda>d. map (\<lambda>r. if confidence r \<ge> 3/4 then 0x48 else 0x4C) (rows d)) (3/4)
     \<lparr>text_input_single = [], uploader_key_counter = 0,
      results_df = Some (DataFrame
        [\<lparr>text_of = PStr [97], predicted_category = lit ''World'', confidence = 9/10,
           raw_probabilities = []\<rparr>,
         \<lparr>text_of = PStr [98], predicted_category = lit ''Sports'', confidence = 1/2,
           raw_probabilities = []\<rparr>])\<rparr> =
   Inr [St_subheader (lit ''Analysis Results''),
        St_chart_counts {#lit ''World''#} (3/4),
        St_table_counts {#lit ''World''#},
        St_download_button [0x48, 0x4C]] \<and>
   tab2_results (\<lambda>d. map (\<lambda>r. if confidence r \<ge> 3/4 then 0x48 else 0x4C) (rows d)) (19/20)
     \<lparr>text_input_single = [], uploader_key_counter = 0,
      results_df = Some (DataFrame
        [\<lparr>text_of = PStr [97], predicted_category = lit ''World'', confidence = 9/10,
           raw_probabilities = []\<rparr>,
         \<lparr>text_of = PStr [98], predicted_category = lit ''Sports'', confidence = 1/2,
           raw_probabilities = []\<rparr>])\<rparr> =
   Inr [St_subheader (lit ''Analysis Results''),
        St_warning (lit ''No articles met the confidence threshold. Try lowering it in the sidebar settings.'')]"
  by (simp add: tab2_results_def filter_confidence_def value_counts_def DataFrame_def lit_def)

section \<open>The texts of an upload and the sentinel\<close>























end
